theory Spec2Isabelle
  imports Main "HOL-Library.List_Lexorder" "HOL-Library.Sublist"
begin

section \<open>Python strings\<close>

text \<open>
  A Python \<open>str\<close> is a sequence of Unicode code points. It is modelled as a list of
  natural numbers, one per code point, so that \<open>len\<close>, slicing, \<open>in\<close>, \<open>split\<close>
  and the comparison used by \<open>sorted\<close> (lexicographic on code points, a proper prefix
  first) are those of the list. \<open>str s\<close> reads an ASCII literal of the source.
\<close>

type_synonym pystr = "nat list"

definition str :: "string \<Rightarrow> pystr" where
  "str s = map of_char s"

definition NL :: pystr where
  "NL = [10]"

text \<open>
  \<open>c.isspace()\<close> as \<open>str.strip()\<close> uses it: the ASCII controls 9-13 and 28-31, the
  space, and the Unicode white space U+0085, U+00A0, U+1680, U+2000-U+200A, U+2028,
  U+2029, U+202F, U+205F, U+3000.
\<close>

definition py_isspace :: "nat \<Rightarrow> bool" where
  "py_isspace c \<longleftrightarrow>
     (9 \<le> c \<and> c \<le> 13) \<or> (28 \<le> c \<and> c \<le> 32) \<or> c = 133 \<or> c = 160 \<or> c = 5760 \<or>
     (8192 \<le> c \<and> c \<le> 8202) \<or> c = 8232 \<or> c = 8233 \<or> c = 8239 \<or> c = 8287 \<or> c = 12288"

definition py_lstrip :: "pystr \<Rightarrow> pystr" where
  "py_lstrip s = dropWhile py_isspace s"

definition py_rstrip :: "pystr \<Rightarrow> pystr" where
  "py_rstrip s = rev (dropWhile py_isspace (rev s))"

definition py_strip :: "pystr \<Rightarrow> pystr" where
  "py_strip s = py_rstrip (py_lstrip s)"

text \<open>\<open>sub in s\<close>: \<open>sub\<close> occurs in \<open>s\<close> as a contiguous substring.\<close>

fun py_in :: "pystr \<Rightarrow> pystr \<Rightarrow> bool" where
  "py_in sub [] = (sub = [])"
| "py_in sub (c # cs) = (prefix sub (c # cs) \<or> py_in sub cs)"

text \<open>
  Splitting at every character that satisfies \<open>is_sep\<close>: \<open>s.split(c)\<close> for a
  one-character separator and \<open>re.split\<close> for a character class. \<open>n\<close> separators give
  \<open>n + 1\<close> pieces, empty ones included; the empty string gives one empty piece.
\<close>

fun split_on :: "(nat \<Rightarrow> bool) \<Rightarrow> pystr \<Rightarrow> pystr list" where
  "split_on is_sep [] = [[]]"
| "split_on is_sep (c # cs) =
     (if is_sep c then [] # split_on is_sep cs
      else (case split_on is_sep cs of
              [] \<Rightarrow> [[c]]
            | piece # pieces \<Rightarrow> (c # piece) # pieces))"

text \<open>
  \<open>s.split(sep, 1)\<close> for a non-empty \<open>sep\<close>: the text before and after the first
  occurrence of \<open>sep\<close>, or \<open>s\<close> alone when \<open>sep\<close> does not occur.
\<close>

fun split_first :: "pystr \<Rightarrow> pystr \<Rightarrow> pystr list" where
  "split_first sep [] = [[]]"
| "split_first sep (c # cs) =
     (if prefix sep (c # cs) then [[], drop (length sep) (c # cs)]
      else (case split_first sep cs of
              [left, right] \<Rightarrow> [c # left, right]
            | _ \<Rightarrow> [c # cs]))"

text \<open>\<open>sep.join(parts)\<close>.\<close>

fun py_join :: "pystr \<Rightarrow> pystr list \<Rightarrow> pystr" where
  "py_join sep [] = []"
| "py_join sep [p] = p"
| "py_join sep (p # q # ps) = p @ sep @ py_join sep (q # ps)"

section \<open>The outside world\<close>

text \<open>
  The program talks to a text-generation service and draws random numbers. Both are
  outside the program, so the model takes them as a \<open>world\<close>: what the service answers
  to a request, and the random numbers drawn, each depending on the number of
  interactions that came before (the same request may be answered differently the
  second time). Every interaction is appended to a trace, which the functions pass
  along; the diagnostic \<open>print\<close> calls of the source are left out.

  \<open>chat_reply\<close> is the outcome of \<open>client.chat.completions.create(...)\<close> followed by
  \<open>.choices[0].message.content\<close>: an exception raised on the way, or the content,
  which the service may leave out (\<open>None\<close>). \<open>search_reply\<close> is the outcome of
  \<open>client.responses.create(...)\<close> followed by \<open>.output_text\<close>. The temperature of a
  request is written in hundredths.

  The world also holds the part of the Python runtime that the model does not spell
  out, the case tables of Unicode above U+00FF: \<open>unicode_lower\<close> and \<open>unicode_title\<close>
  are what \<open>s.lower()\<close> and \<open>s.title()\<close> return for a string \<open>s\<close> that has a code point
  above U+00FF.
\<close>

datatype py_exception =
    ValueError pystr
  | TypeError pystr
  | AttributeError pystr
  | IndexError pystr
  | APIError pystr

fun exception_str :: "py_exception \<Rightarrow> pystr" where
  "exception_str (ValueError m) = m"
| "exception_str (TypeError m) = m"
| "exception_str (AttributeError m) = m"
| "exception_str (IndexError m) = m"
| "exception_str (APIError m) = m"

record chat_request =
  req_model :: pystr
  req_content :: pystr
  req_temperature :: nat
  req_max_tokens :: nat

datatype event =
    RandomSample "pystr list" nat
  | RandomChoice "nat list"
  | ChatCompletion chat_request
  | WebSearch pystr

record world =
  chat_reply :: "nat \<Rightarrow> chat_request \<Rightarrow> py_exception + pystr option"
  search_reply :: "nat \<Rightarrow> pystr \<Rightarrow> py_exception + pystr"
  random_draws :: "nat \<Rightarrow> nat \<Rightarrow> nat"
  unicode_lower :: "pystr \<Rightarrow> pystr"
  unicode_title :: "pystr \<Rightarrow> pystr"

text \<open>
  \<open>random.sample(population, k)\<close> raises \<open>ValueError\<close> when the population has fewer
  than \<open>k\<close> elements, and otherwise returns the elements at \<open>k\<close> different positions:
  the \<open>j\<close>-th draw picks a position of what is left of the population.
  \<open>random.choice(seq)\<close> returns the element at a drawn position of a non-empty \<open>seq\<close>.
\<close>

fun sample_from :: "(nat \<Rightarrow> nat) \<Rightarrow> nat \<Rightarrow> 'a list \<Rightarrow> nat \<Rightarrow> 'a list" where
  "sample_from draw j pool 0 = []"
| "sample_from draw j [] (Suc k) = []"
| "sample_from draw j (x # xs) (Suc k) =
     (let i = draw j mod length (x # xs)
      in (x # xs) ! i # sample_from draw (Suc j) (take i (x # xs) @ drop (Suc i) (x # xs)) k)"

definition random_sample :: "(nat \<Rightarrow> nat) \<Rightarrow> 'a list \<Rightarrow> nat \<Rightarrow> py_exception + 'a list" where
  "random_sample draw population k =
     (if length population < k
      then Inl (ValueError (str ''Sample larger than population or is negative''))
      else Inr (sample_from draw 0 population k))"

definition random_choice :: "(nat \<Rightarrow> nat) \<Rightarrow> 'a list \<Rightarrow> py_exception + 'a" where
  "random_choice draw seq =
     (if seq = [] then Inl (IndexError (str ''Cannot choose from an empty sequence''))
      else Inr (seq ! (draw 0 mod length seq)))"

section \<open>Case mapping\<close>

text \<open>
  \<open>s.lower()\<close> and \<open>s.title()\<close>. For a string whose code points all lie in
  U+0000-U+00FF (ASCII and Latin-1) the result is computed from Python's tables for
  that range, written out below; for any other string it is the runtime's,
  \<open>unicode_lower\<close> and \<open>unicode_title\<close> of the world. \<open>py_title_cp\<close> returns a string:
  the title case of U+00DF is the two letters \<open>Ss\<close>, and that of U+00B5 and U+00FF
  lies above U+00FF.
\<close>

definition latin1 :: "pystr \<Rightarrow> bool" where
  "latin1 s = list_all (\<lambda>c. c \<le> 255) s"

definition py_iscased :: "nat \<Rightarrow> bool" where
  "py_iscased c \<longleftrightarrow>
     (65 \<le> c \<and> c \<le> 90) \<or> (97 \<le> c \<and> c \<le> 122) \<or> c = 170 \<or> c = 181 \<or> c = 186 \<or>
     (192 \<le> c \<and> c \<le> 214) \<or> (216 \<le> c \<and> c \<le> 246) \<or> (248 \<le> c \<and> c \<le> 255)"

definition py_lower_cp :: "nat \<Rightarrow> nat" where
  "py_lower_cp c =
     (if (65 \<le> c \<and> c \<le> 90) \<or> (192 \<le> c \<and> c \<le> 214) \<or> (216 \<le> c \<and> c \<le> 222)
      then c + 32 else c)"

definition py_title_cp :: "nat \<Rightarrow> pystr" where
  "py_title_cp c =
     (if (97 \<le> c \<and> c \<le> 122) \<or> (224 \<le> c \<and> c \<le> 246) \<or> (248 \<le> c \<and> c \<le> 254)
      then [c - 32]
      else if c = 181 then [924]
      else if c = 223 then [83, 115]
      else if c = 255 then [376]
      else [c])"

definition py_lower :: "world \<Rightarrow> pystr \<Rightarrow> pystr" where
  "py_lower w s = (if latin1 s then map py_lower_cp s else unicode_lower w s)"

text \<open>
  Title-casing: a character that follows a cased character is lower-cased, any other
  character is title-cased.
\<close>

fun title_from :: "bool \<Rightarrow> pystr \<Rightarrow> pystr" where
  "title_from previous_is_cased [] = []"
| "title_from previous_is_cased (c # cs) =
     (if previous_is_cased then [py_lower_cp c] else py_title_cp c) @
     title_from (py_iscased c) cs"

definition py_title :: "world \<Rightarrow> pystr \<Rightarrow> pystr" where
  "py_title w s = (if latin1 s then title_from False s else unicode_title w s)"

section \<open>Keyword parsing and merging\<close>

text \<open>
  The list comprehension that ends both keyword extractors (lines 53 and 74):
  \<^verbatim>\<open>[kw.strip().lower() for kw in re.split(r'[,\n]', raw) if kw.strip()]\<close>.
\<close>

definition parse_keywords :: "world \<Rightarrow> pystr \<Rightarrow> pystr list" where
  "parse_keywords w raw =
     [py_lower w (py_strip kw). kw \<leftarrow> split_on (\<lambda>c. c = 44 \<or> c = 10) raw, py_strip kw \<noteq> []]"

text \<open>
  Line 180, \<^verbatim>\<open>sorted(set(base_kw + link_kw))\<close>: the distinct elements of the
  concatenation in ascending order. Python compares strings by code point, as the
  lexicographic order on \<open>nat list\<close> does.
\<close>

definition merge_keywords :: "pystr list \<Rightarrow> pystr list \<Rightarrow> pystr list" where
  "merge_keywords base_kw link_kw = sort (remdups (base_kw @ link_kw))"

section \<open>The program\<close>

definition DQ :: pystr where
  "DQ = [34]"

text \<open>\<open>str(n)\<close> for a non-negative integer, as an f-string formats it.\<close>

fun str_of_nat :: "nat \<Rightarrow> pystr" where
  "str_of_nat n = (if n < 10 then [48 + n] else str_of_nat (n div 10) @ [48 + n mod 10])"

declare str_of_nat.simps [simp del]

text \<open>An f-string formats \<open>None\<close> as the text \<open>None\<close>.\<close>

fun format_optional :: "pystr option \<Rightarrow> pystr" where
  "format_optional None = str ''None''"
| "format_optional (Some s) = s"

subsection \<open>\<open>get_product_descriptions\<close> (lines 24-30)\<close>

text \<open>
  The catalog is the dictionary \<open>PRODUCT_CATALOG\<close>, a module-level constant of the
  source: here a parameter, the list of its items in the dictionary's order, with
  strings as descriptions. \<open>map_of catalog name\<close> is \<open>PRODUCT_CATALOG.get(name)\<close>, and
  \<open>map fst catalog\<close> is \<open>list(PRODUCT_CATALOG.keys())\<close>.
\<close>

type_synonym catalog = "(pystr \<times> pystr) list"

fun product_entries :: "catalog \<Rightarrow> pystr list \<Rightarrow> pystr list \<Rightarrow> pystr list" where
  "product_entries catalog [] entries = entries"
| "product_entries catalog (name # names) entries =
     (case map_of catalog name of
        None \<Rightarrow> product_entries catalog names entries
      | Some desc \<Rightarrow>
          if desc \<noteq> []
          then product_entries catalog names (entries @ [str ''**'' @ name @ str ''**'' @ NL @ desc])
          else product_entries catalog names entries)"

definition get_product_descriptions :: "catalog \<Rightarrow> pystr list \<Rightarrow> pystr" where
  "get_product_descriptions catalog product_names =
     py_join (NL @ NL) (product_entries catalog product_names [])"

subsection \<open>\<open>extract_keywords\<close> (lines 33-53)\<close>

definition extract_keywords_request :: "pystr \<Rightarrow> chat_request" where
  "extract_keywords_request paragraph =
     \<lparr>req_model = str ''gpt-4'',
      req_content = py_join NL
       [[],
        str ''You are an expert in experiential event planning.'',
        [],
        str ''Extract 5-10 short, specific, and thematic keywords or concepts from the event description below. These will be used to inspire immersive, tech-powered event ideas.'',
        [],
        str ''Each keyword should be 2-4 words long and describe a concrete idea or theme (e.g., '' @ DQ @ str ''photo booths'' @ DQ @ str '', '' @ DQ @ str ''smart vending'' @ DQ @ str '', '' @ DQ @ str ''interactive storytelling'' @ DQ @ str '').'',
        [],
        str ''Event Description:'',
        DQ @ paragraph @ DQ,
        [],
        str ''Return the keywords as a comma-separated list.'',
        []],
      req_temperature = 70,
      req_max_tokens = 200\<rparr>"

text \<open>
  Both extractors end alike: an exception of the call propagates, \<open>re.split\<close> raises
  \<open>TypeError\<close> when the content is \<open>None\<close>, and a content string is split into keywords.
  Nothing in the extractors catches an exception.
\<close>

definition keywords_of_reply ::
  "world \<Rightarrow> py_exception + pystr option \<Rightarrow> py_exception + pystr list" where
  "keywords_of_reply w reply =
     (case reply of
        Inl e \<Rightarrow> Inl e
      | Inr None \<Rightarrow>
          Inl (TypeError (str ''expected string or bytes-like object, got '' @ [39] @ str ''NoneType'' @ [39]))
      | Inr (Some raw) \<Rightarrow> Inr (parse_keywords w raw))"

definition extract_keywords ::
  "world \<Rightarrow> pystr \<Rightarrow> event list \<Rightarrow> (py_exception + pystr list) \<times> event list" where
  "extract_keywords w paragraph tr =
     (keywords_of_reply w (chat_reply w (length tr) (extract_keywords_request paragraph)),
      tr @ [ChatCompletion (extract_keywords_request paragraph)])"

subsection \<open>\<open>extract_keywords_from_title_and_link\<close> (lines 56-74)\<close>

definition title_and_link_request :: "pystr \<Rightarrow> pystr \<Rightarrow> chat_request" where
  "title_and_link_request title link =
     \<lparr>req_model = str ''gpt-4'',
      req_content = py_join NL
       [[],
        str ''You are an expert in event innovation.'',
        [],
        str ''Given the title and link below, extract 3-5 short, specific, and meaningful keywords or themes (2-4 words each) that describe what the page is about.'',
        [],
        str ''Title: '' @ title,
        str ''Link: '' @ link,
        [],
        str ''Return the keywords as a comma-separated list.'',
        []],
      req_temperature = 60,
      req_max_tokens = 150\<rparr>"

definition extract_keywords_from_title_and_link ::
  "world \<Rightarrow> pystr \<Rightarrow> pystr \<Rightarrow> event list \<Rightarrow> (py_exception + pystr list) \<times> event list" where
  "extract_keywords_from_title_and_link w title link tr =
     (keywords_of_reply w (chat_reply w (length tr) (title_and_link_request title link)),
      tr @ [ChatCompletion (title_and_link_request title link)])"

subsection \<open>\<open>search_similar_events_and_products_openai\<close> (lines 77-98)\<close>

definition search_input :: "pystr list \<Rightarrow> pystr" where
  "search_input keywords =
     str ''Generate 10 useful URLs for experiential event ideas or iboothme.com inspiration related to the keywords: '' @
     py_join (str '', '') keywords"

text \<open>The body of the loop over the lines of the response (lines 88-94).\<close>

definition link_of_line :: "pystr \<Rightarrow> pystr \<times> pystr" where
  "link_of_line line =
     (case split_first (str '' - '') line of
        [left, right] \<Rightarrow> (py_strip left, py_strip right)
      | _ \<Rightarrow> (py_strip line, py_strip line))"

fun collect_links :: "pystr list \<Rightarrow> (pystr \<times> pystr) list \<Rightarrow> (pystr \<times> pystr) list" where
  "collect_links [] results = results"
| "collect_links (line # lines) results =
     (if py_in (str ''http'') line
      then collect_links lines (results @ [link_of_line line])
      else collect_links lines results)"

text \<open>Lines 85-95: what the function returns for the response text \<open>content\<close>.\<close>

definition parse_links :: "pystr \<Rightarrow> (pystr \<times> pystr) list" where
  "parse_links content = take 10 (collect_links (split_on (\<lambda>c. c = 10) content) [])"

text \<open>
  The call and the parsing stand in a \<open>try\<close> whose handler catches every \<open>Exception\<close>
  and returns the empty list.
\<close>

definition search_similar_events_and_products_openai ::
  "world \<Rightarrow> pystr list \<Rightarrow> event list \<Rightarrow> (pystr \<times> pystr) list \<times> event list" where
  "search_similar_events_and_products_openai w keywords tr =
     (case search_reply w (length tr) (search_input keywords) of
        Inl e \<Rightarrow> []
      | Inr content \<Rightarrow> parse_links content,
      tr @ [WebSearch (search_input keywords)])"

subsection \<open>\<open>generate_event_ideas\<close> (lines 101-151)\<close>

definition search_summary :: "(pystr \<times> pystr) list \<Rightarrow> pystr" where
  "search_summary search_links =
     py_join NL [str ''- '' @ title @ str '': '' @ url. (title, url) \<leftarrow> search_links]"

definition include_games :: "pystr list \<Rightarrow> bool" where
  "include_games all_keywords = list_ex (\<lambda>kw. py_in (str ''game'') kw) all_keywords"

definition game_instruction :: "pystr list \<Rightarrow> pystr" where
  "game_instruction all_keywords =
     (if include_games all_keywords
      then str ''Include at least two game-related ideas (e.g., quiz game, vending challenge).''
      else [])"

text \<open>
  The f-string of lines 112-144, line by line; the prompt is its lines joined by
  newlines (the text starts and ends with a newline).
\<close>

definition ideas_prompt_lines ::
  "pystr \<Rightarrow> pystr \<Rightarrow> (pystr \<times> pystr) list \<Rightarrow> pystr list \<Rightarrow> nat \<Rightarrow> pystr list" where
  "ideas_prompt_lines paragraph product_info search_links all_keywords idea_count =
       [[],
        str ''You are an expert event strategist for iboothme, a company offering creative experiences like AI photo booths, smart vending machines, audio booths, personalization stations, and immersive visual storytelling.'',
        [],
        str ''Below are full descriptions of three randomly selected iboothme products, to keep all ideas on-brand:'',
        product_info,
        [],
        str ''Based on the event description below, generate '' @ str_of_nat idea_count @ str '' unique and diverse iboothme-powered event ideas.'',
        str ''Make sure that the syntax of the brand is always '' @ DQ @ str ''iboothme'' @ DQ @ str '' (all lowercase).'',
        [],
        str ''**Event Description:**'',
        paragraph,
        [],
        str ''**Inspiration from Related Ideas:**'',
        search_summary search_links,
        [],
        [128161] @ str '' **Your Task:**'',
        str ''Create ideas that are immersive, memorable, and creatively use iboothme's photo, video, and audio-based technologies. Do not use AR, VR, projection mapping, or other tech-heavy elements.'',
        [],
        str ''You must include:'',
        str ''- At least two game-related ideas'',
        str ''- Studio Ghibli-inspired visuals in one idea'',
        str ''- Personalized giveaways (e.g., custom t-shirts, stickers, Labibu dolls)'',
        game_instruction all_keywords,
        [],
        [10071] @ str '' Important:'',
        str ''- Avoid AR, VR, holograms, or projection domes'',
        str ''- Do not repeat photo'' @ [8209] @ str ''booth formats'',
        str ''- Every idea should have a creative title'',
        str ''- Each idea should be described in a paragraph'',
        str ''- Immediately after, write a second paragraph describing the user journey flow'',
        [],
        str ''Return **only** the final ideas in markdown format.'',
        []]"

definition ideas_prompt ::
  "pystr \<Rightarrow> pystr \<Rightarrow> (pystr \<times> pystr) list \<Rightarrow> pystr list \<Rightarrow> nat \<Rightarrow> pystr" where
  "ideas_prompt paragraph product_info search_links all_keywords idea_count =
     py_join NL (ideas_prompt_lines paragraph product_info search_links all_keywords idea_count)"

definition ideas_request ::
  "pystr \<Rightarrow> pystr \<Rightarrow> (pystr \<times> pystr) list \<Rightarrow> pystr list \<Rightarrow> nat \<Rightarrow> chat_request" where
  "ideas_request paragraph product_info search_links all_keywords idea_count =
     \<lparr>req_model = str ''gpt-4'',
      req_content = ideas_prompt paragraph product_info search_links all_keywords idea_count,
      req_temperature = 95,
      req_max_tokens = 1500\<rparr>"

text \<open>The function returns the content as it is, \<open>None\<close> included.\<close>

definition generate_event_ideas ::
  "world \<Rightarrow> pystr \<Rightarrow> pystr \<Rightarrow> (pystr \<times> pystr) list \<Rightarrow> pystr list \<Rightarrow> nat \<Rightarrow> event list \<Rightarrow>
   (py_exception + pystr option) \<times> event list" where
  "generate_event_ideas w paragraph product_info search_links all_keywords idea_count tr =
     (chat_reply w (length tr)
        (ideas_request paragraph product_info search_links all_keywords idea_count),
      tr @ [ChatCompletion (ideas_request paragraph product_info search_links all_keywords idea_count)])"

subsection \<open>\<open>main_workflow\<close> (lines 154-220)\<close>

text \<open>The loop of lines 176-179: the keywords of every link, in order.\<close>

fun link_keywords ::
  "world \<Rightarrow> (pystr \<times> pystr) list \<Rightarrow> pystr list \<Rightarrow> event list \<Rightarrow>
   (py_exception + pystr list) \<times> event list" where
  "link_keywords w [] link_kw tr = (Inr link_kw, tr)"
| "link_keywords w ((t, u) # links) link_kw tr =
     (case extract_keywords_from_title_and_link w t u tr of
        (Inl e, tr') \<Rightarrow> (Inl e, tr')
      | (Inr kws, tr') \<Rightarrow> link_keywords w links (link_kw @ kws) tr')"

text \<open>
  Stage 2, the body of the \<open>try\<close> of lines 170-181: the links and the merged keywords,
  or the exception that the handler of line 182 turns into a message.
\<close>

definition gather_keywords ::
  "world \<Rightarrow> pystr \<Rightarrow> event list \<Rightarrow>
   (py_exception + (pystr \<times> pystr) list \<times> pystr list) \<times> event list" where
  "gather_keywords w paragraph tr =
     (case extract_keywords w paragraph tr of
        (Inl e, tr1) \<Rightarrow> (Inl e, tr1)
      | (Inr base_kw, tr1) \<Rightarrow>
          (case search_similar_events_and_products_openai w base_kw tr1 of
             (links, tr2) \<Rightarrow>
               (case link_keywords w links [] tr2 of
                  (Inl e, tr3) \<Rightarrow> (Inl e, tr3)
                | (Inr link_kw, tr3) \<Rightarrow> (Inr (links, merge_keywords base_kw link_kw), tr3))))"

text \<open>The loop of lines 198-211 over the keywords to summarize.\<close>

definition summary_request :: "pystr \<Rightarrow> chat_request" where
  "summary_request kw =
     \<lparr>req_model = str ''gpt-4'',
      req_content = str ''Give a short one-line event idea description using the keyword: '' @ kw,
      req_temperature = 60,
      req_max_tokens = 60\<rparr>"

text \<open>
  One bullet: with the description when the call returns a content string; the bare
  label when the call raises, or when \<open>.strip()\<close> raises \<open>AttributeError\<close> on a content
  of \<open>None\<close>.
\<close>

definition summary_bullet :: "world \<Rightarrow> pystr \<Rightarrow> py_exception + pystr option \<Rightarrow> pystr" where
  "summary_bullet w kw reply =
     (case reply of
        Inr (Some content) \<Rightarrow>
          str ''- **'' @ py_title w kw @ str ''**: '' @ py_strip content
      | _ \<Rightarrow> str ''- **'' @ py_title w kw @ str ''**'')"

fun summarize ::
  "world \<Rightarrow> pystr list \<Rightarrow> pystr list \<Rightarrow> event list \<Rightarrow> pystr list \<times> event list" where
  "summarize w [] summaries tr = (summaries, tr)"
| "summarize w (kw # kws) summaries tr =
     summarize w kws
       (summaries @ [summary_bullet w kw (chat_reply w (length tr) (summary_request kw))])
       (tr @ [ChatCompletion (summary_request kw)])"

text \<open>Lines 213-220: the document returned at the end.\<close>

definition final_markdown :: "pystr list \<Rightarrow> pystr option \<Rightarrow> pystr" where
  "final_markdown summaries ideas_md =
     py_join NL
       [[],
        [127760] @ str '' **Relevant Keywords Summary:**  '',
        py_join NL summaries,
        [],
        format_optional ideas_md,
        []]"

text \<open>Stages 3 to 5, lines 186-220.\<close>

definition ideas_and_summary ::
  "world \<Rightarrow> pystr \<Rightarrow> pystr \<Rightarrow> (pystr \<times> pystr) list \<Rightarrow> pystr list \<Rightarrow> event list \<Rightarrow>
   pystr \<times> event list" where
  "ideas_and_summary w paragraph product_info links all_kw tr =
     (case random_choice (random_draws w (length tr)) [5, 6, 7, 8] of
        Inl e \<Rightarrow>
          ([10060] @ str '' Error generating ideas: '' @ exception_str e,
           tr @ [RandomChoice [5, 6, 7, 8]])
      | Inr idea_count \<Rightarrow>
          (case generate_event_ideas w paragraph product_info links all_kw idea_count
                  (tr @ [RandomChoice [5, 6, 7, 8]]) of
             (Inl e, tr4) \<Rightarrow> ([10060] @ str '' Error generating ideas: '' @ exception_str e, tr4)
           | (Inr ideas_md, tr4) \<Rightarrow>
               (case summarize w (take 10 all_kw) [] tr4 of
                  (summaries, tr5) \<Rightarrow> (final_markdown summaries ideas_md, tr5))))"

definition main_workflow :: "world \<Rightarrow> catalog \<Rightarrow> pystr \<Rightarrow> event list \<Rightarrow> pystr \<times> event list" where
  "main_workflow w catalog paragraph tr =
     (if py_strip paragraph = []
      then ([10060] @ str '' Please enter an event description.'', tr)
      else
        (case random_sample (random_draws w (length tr)) (map fst catalog) 4 of
           Inl e \<Rightarrow>
             ([10060] @ str '' Error selecting products: '' @ exception_str e,
              tr @ [RandomSample (map fst catalog) 4])
         | Inr gadget_names \<Rightarrow>
             (case gather_keywords w paragraph (tr @ [RandomSample (map fst catalog) 4]) of
                (Inl e, tr3) \<Rightarrow>
                  ([10060] @ str '' Error in keyword extraction or web search: '' @ exception_str e,
                   tr3)
              | (Inr (links, all_kw), tr3) \<Rightarrow>
                  ideas_and_summary w paragraph
                    (get_product_descriptions catalog gadget_names) links all_kw tr3)))"

section \<open>Properties of the merge\<close>

lemma merge_keywords_sorted: "sorted (merge_keywords base_kw link_kw)"
  by (simp add: merge_keywords_def)

lemma merge_keywords_distinct: "distinct (merge_keywords base_kw link_kw)"
  by (simp add: merge_keywords_def)

lemma merge_keywords_set:
  "set (merge_keywords base_kw link_kw) = set base_kw \<union> set link_kw"
  by (simp add: merge_keywords_def)

lemma merge_keywords_unique:
  assumes "sorted ys" and "distinct ys" and "set ys = set base_kw \<union> set link_kw"
  shows "merge_keywords base_kw link_kw = ys"
proof -
  have "sorted (merge_keywords base_kw link_kw) \<and> distinct (merge_keywords base_kw link_kw)"
    by (simp add: merge_keywords_sorted merge_keywords_distinct)
  moreover have "set (merge_keywords base_kw link_kw) = set ys"
    using assms(3) by (simp add: merge_keywords_set)
  ultimately show ?thesis
    using assms(1,2) by (blast intro: sorted_distinct_set_unique)
qed

lemma merge_keywords_absorb:
  assumes "set zs \<subseteq> set base_kw \<union> set link_kw"
  shows "merge_keywords (merge_keywords base_kw link_kw) zs = merge_keywords base_kw link_kw"
proof (rule merge_keywords_unique)
  show "sorted (merge_keywords base_kw link_kw)" by (rule merge_keywords_sorted)
  show "distinct (merge_keywords base_kw link_kw)" by (rule merge_keywords_distinct)
  show "set (merge_keywords base_kw link_kw) = set (merge_keywords base_kw link_kw) \<union> set zs"
    using assms by (auto simp: merge_keywords_set)
qed

lemma merge_keywords_example:
  "merge_keywords [str ''b'', str ''a''] [str ''a'', str ''c''] = [str ''a'', str ''b'', str ''c'']"
  by (simp add: merge_keywords_def str_def)

text \<open>
  C4. The merge of the base keywords with the link keywords is the strictly ascending
  (so sorted and duplicate-free) list of the elements of both lists. It is idempotent:
  merging the merged list with either input, or with nothing, gives the merged list
  again. Merging \<open>["b", "a"]\<close> with \<open>["a", "c"]\<close> gives \<open>["a", "b", "c"]\<close>.
\<close>

theorem merge_keywords_sorted_set_idempotent:
  "sorted_wrt (<) (merge_keywords base_kw link_kw) \<and>
   set (merge_keywords base_kw link_kw) = set base_kw \<union> set link_kw \<and>
   merge_keywords (merge_keywords base_kw link_kw) base_kw = merge_keywords base_kw link_kw \<and>
   merge_keywords (merge_keywords base_kw link_kw) link_kw = merge_keywords base_kw link_kw \<and>
   merge_keywords (merge_keywords base_kw link_kw) [] = merge_keywords base_kw link_kw \<and>
   merge_keywords [str ''b'', str ''a''] [str ''a'', str ''c''] = [str ''a'', str ''b'', str ''c'']"
proof -
  have "sorted_wrt (<) (merge_keywords base_kw link_kw)"
    using merge_keywords_sorted [of base_kw link_kw] merge_keywords_distinct [of base_kw link_kw]
    by (simp add: strict_sorted_iff)
  moreover have "merge_keywords (merge_keywords base_kw link_kw) base_kw = merge_keywords base_kw link_kw"
    by (rule merge_keywords_absorb) simp
  moreover have "merge_keywords (merge_keywords base_kw link_kw) link_kw = merge_keywords base_kw link_kw"
    by (rule merge_keywords_absorb) simp
  moreover have "merge_keywords (merge_keywords base_kw link_kw) [] = merge_keywords base_kw link_kw"
    by (rule merge_keywords_absorb) simp
  ultimately show ?thesis
    by (simp add: merge_keywords_set merge_keywords_example)
qed

section \<open>Facts about the string operations\<close>

lemma py_strip_nil_iff: "py_strip s = [] \<longleftrightarrow> (\<forall>c\<in>set s. py_isspace c)"
proof
  assume "py_strip s = []"
  then have all: "\<forall>c\<in>set (dropWhile py_isspace s). py_isspace c"
    by (simp add: py_strip_def py_rstrip_def py_lstrip_def)
  have "dropWhile py_isspace s = []"
  proof (cases "dropWhile py_isspace s")
    case Nil then show ?thesis .
  next
    case (Cons x xs)
    then have "\<not> py_isspace x" using hd_dropWhile [of py_isspace s] by simp
    moreover have "py_isspace x" using all Cons by simp
    ultimately show ?thesis by simp
  qed
  then show "\<forall>c\<in>set s. py_isspace c" by simp
next
  assume "\<forall>c\<in>set s. py_isspace c"
  then show "py_strip s = []"
    by (auto simp: py_strip_def py_rstrip_def py_lstrip_def dest: set_dropWhileD)
qed

lemma py_in_iff: "py_in sub s \<longleftrightarrow> (\<exists>pre post. s = pre @ sub @ post)"
proof (induction s)
  case Nil
  then show ?case by auto
next
  case (Cons c cs)
  show ?case
  proof
    assume "py_in sub (c # cs)"
    then consider "prefix sub (c # cs)" | "py_in sub cs" by auto
    then show "\<exists>pre post. c # cs = pre @ sub @ post"
    proof cases
      case 1
      then obtain post where "c # cs = sub @ post" by (auto simp: prefix_def)
      then have "c # cs = [] @ sub @ post" by simp
      then show ?thesis by blast
    next
      case 2
      then obtain pre post where "cs = pre @ sub @ post" using Cons.IH by blast
      then have "c # cs = (c # pre) @ sub @ post" by simp
      then show ?thesis by blast
    qed
  next
    assume "\<exists>pre post. c # cs = pre @ sub @ post"
    then obtain pre post where eq: "c # cs = pre @ sub @ post" by blast
    show "py_in sub (c # cs)"
    proof (cases pre)
      case Nil
      then have "prefix sub (c # cs)" using eq by (simp add: prefix_def)
      then show ?thesis by simp
    next
      case (Cons p ps)
      then have "cs = ps @ sub @ post" using eq by simp
      then have "py_in sub cs" using Cons.IH by blast
      then show ?thesis by simp
    qed
  qed
qed

lemma py_join_append:
  "xs \<noteq> [] \<Longrightarrow> ys \<noteq> [] \<Longrightarrow> py_join sep (xs @ ys) = py_join sep xs @ sep @ py_join sep ys"
proof (induction sep xs rule: py_join.induct)
  case (1 sep)
  then show ?case by simp
next
  case (2 sep p)
  then show ?case by (cases ys) simp_all
next
  case (3 sep p q ps)
  then show ?case by simp
qed

section \<open>The entry check\<close>

text \<open>
  C1. For a paragraph that is empty or consists of white space only, \<open>main_workflow\<close>
  returns the fixed validation message, whatever the world and the catalog are, and
  the trace is unchanged: nothing is sampled or chosen, and no request (keyword
  extraction, search, idea generation, summary) is sent.
\<close>

theorem blank_paragraph_returns_validation_message:
  "(\<forall>c\<in>set paragraph. py_isspace c) \<Longrightarrow>
   main_workflow w catalog paragraph tr =
     ([10060] @ str '' Please enter an event description.'', tr)"
  by (simp add: main_workflow_def py_strip_nil_iff)

theorem blank_paragraph_witness:
  "main_workflow
     \<lparr>chat_reply = (\<lambda>n r. Inr None), search_reply = (\<lambda>n q. Inr []), random_draws = (\<lambda>n j. 0),
      unicode_lower = (\<lambda>s. s), unicode_title = (\<lambda>s. s)\<rparr>
     [] [32, 9, 10, 160] [] = ([10060] @ str '' Please enter an event description.'', [])"
proof -
  have h: "\<forall>c\<in>set [32, 9, 10, 160::nat]. py_isspace c" by (simp add: py_isspace_def)
  show ?thesis using blank_paragraph_returns_validation_message [OF h] by simp
qed

section \<open>Product descriptions\<close>




section \<open>The prompt of the idea generator\<close>

lemma ideas_prompt_lines_split:
  "ideas_prompt_lines paragraph product_info search_links all_keywords idea_count =
     take 22 (ideas_prompt_lines paragraph product_info search_links [] idea_count) @
     game_instruction all_keywords #
     drop 23 (ideas_prompt_lines paragraph product_info search_links [] idea_count)"
  by (simp add: ideas_prompt_lines_def)

lemma ideas_prompt_split:
  "ideas_prompt paragraph product_info search_links all_keywords idea_count =
     py_join NL (take 22 (ideas_prompt_lines paragraph product_info search_links [] idea_count)) @
     NL @ game_instruction all_keywords @ NL @
     py_join NL (drop 23 (ideas_prompt_lines paragraph product_info search_links [] idea_count))"
proof -
  let ?L = "ideas_prompt_lines paragraph product_info search_links [] idea_count"
  have a: "take 22 ?L \<noteq> []" and b: "drop 23 ?L \<noteq> []"
    by (simp_all add: ideas_prompt_lines_def)
  obtain y ys where d: "drop 23 ?L = y # ys" using b by (cases "drop 23 ?L") auto
  have "ideas_prompt paragraph product_info search_links all_keywords idea_count =
      py_join NL (take 22 ?L @ (game_instruction all_keywords # drop 23 ?L))"
    unfolding ideas_prompt_def by (subst ideas_prompt_lines_split) (rule refl)
  also have "\<dots> = py_join NL (take 22 ?L) @ NL @ py_join NL (game_instruction all_keywords # drop 23 ?L)"
    using a by (simp add: py_join_append)
  also have "py_join NL (game_instruction all_keywords # drop 23 ?L) =
      game_instruction all_keywords @ NL @ py_join NL (drop 23 ?L)"
    by (simp add: d)
  finally show ?thesis by simp
qed

lemma include_games_iff:
  "include_games all_keywords \<longleftrightarrow>
     (\<exists>kw\<in>set all_keywords. \<exists>pre post. kw = pre @ str ''game'' @ post)"
  by (simp add: include_games_def list_ex_iff py_in_iff)

lemma ideas_prompt_must_include:
  "ideas_prompt paragraph product_info search_links all_keywords idea_count =
     (py_join NL (take 18 (ideas_prompt_lines paragraph product_info search_links [] idea_count)) @ NL) @
     str ''You must include:'' @ NL @ str ''- At least two game-related ideas'' @ NL @
     py_join NL (drop 20 (ideas_prompt_lines paragraph product_info search_links all_keywords idea_count))"
  by (simp add: ideas_prompt_def ideas_prompt_lines_def)

lemma ideas_prompt_game_line:
  "ideas_prompt paragraph product_info search_links all_keywords idea_count =
     (py_join NL (take 21 (ideas_prompt_lines paragraph product_info search_links [] idea_count)) @ NL) @
     str ''- Personalized giveaways (e.g., custom t-shirts, stickers, Labibu dolls)'' @ NL @
     game_instruction all_keywords @ NL @ NL @ [10071] @ str '' Important:'' @ NL @
     py_join NL (drop 25 (ideas_prompt_lines paragraph product_info search_links [] idea_count))"
  by (simp add: ideas_prompt_def ideas_prompt_lines_def)

text \<open>
  C8. The instruction that \<open>generate_event_ideas\<close> derives from the keywords is the
  sentence "Include at least two game-related ideas (e.g., quiz game, vending
  challenge)." if and only if some keyword of the list contains \<open>game\<close> as a
  substring, and the empty string otherwise. It is the only part of the prompt that
  depends on the keywords: the prompt is a fixed text up to the line on personalized
  giveaways, then the instruction on a line of its own, then a fixed text from the
  blank line before "Important:" on. The request sent carries that prompt.
\<close>

theorem game_instruction_iff_game_keyword:
  "game_instruction all_keywords =
     (if \<exists>kw\<in>set all_keywords. \<exists>pre post. kw = pre @ str ''game'' @ post
      then str ''Include at least two game-related ideas (e.g., quiz game, vending challenge).''
      else []) \<and>
   (\<exists>before after. \<forall>kws.
      ideas_prompt paragraph product_info search_links kws idea_count =
        before @ str ''- Personalized giveaways (e.g., custom t-shirts, stickers, Labibu dolls)'' @ NL @
        game_instruction kws @ NL @ NL @ [10071] @ str '' Important:'' @ NL @ after) \<and>
   generate_event_ideas w paragraph product_info search_links all_keywords idea_count tr =
     (chat_reply w (length tr)
        (ideas_request paragraph product_info search_links all_keywords idea_count),
      tr @ [ChatCompletion (ideas_request paragraph product_info search_links all_keywords idea_count)]) \<and>
   req_content (ideas_request paragraph product_info search_links all_keywords idea_count) =
     ideas_prompt paragraph product_info search_links all_keywords idea_count"
proof -
  have "\<exists>before after. \<forall>kws.
      ideas_prompt paragraph product_info search_links kws idea_count =
        before @ str ''- Personalized giveaways (e.g., custom t-shirts, stickers, Labibu dolls)'' @ NL @
        game_instruction kws @ NL @ NL @ [10071] @ str '' Important:'' @ NL @ after"
    using ideas_prompt_game_line [of "paragraph" product_info search_links _ idea_count] by blast
  then show ?thesis
    by (simp add: game_instruction_def include_games_iff generate_event_ideas_def ideas_request_def)
qed

theorem game_instruction_witness:
  "game_instruction [str ''photo booth'', str ''quiz games''] =
     str ''Include at least two game-related ideas (e.g., quiz game, vending challenge).'' \<and>
   game_instruction [str ''photo booth''] = []"
proof -
  have "include_games [str ''photo booth'', str ''quiz games'']"
    by (simp add: include_games_def str_def)
  then have yes: "\<exists>kw\<in>set [str ''photo booth'', str ''quiz games'']. \<exists>pre post. kw = pre @ str ''game'' @ post"
    using include_games_iff [of "[str ''photo booth'', str ''quiz games'']"] by blast
  have "\<not> include_games [str ''photo booth'']"
    by (simp add: include_games_def str_def)
  then have no: "\<not> (\<exists>kw\<in>set [str ''photo booth'']. \<exists>pre post. kw = pre @ str ''game'' @ post)"
    using include_games_iff [of "[str ''photo booth'']"] by blast
  show ?thesis
    using game_instruction_iff_game_keyword [of "[str ''photo booth'', str ''quiz games'']" "[]" "[]" "[]" 5 undefined "[]"]
      game_instruction_iff_game_keyword [of "[str ''photo booth'']" "[]" "[]" "[]" 5 undefined "[]"]
      yes no
    by presburger
qed

text \<open>
  C9. Whatever the paragraph, the product descriptions, the links, the idea count and
  the keywords are (also when no keyword contains \<open>game\<close>), the prompt of
  \<open>generate_event_ideas\<close> holds the line "- At least two game-related ideas" right
  under the heading "You must include:", after a text that does not depend on the
  keywords, and this prompt is the content of the request that is sent.
\<close>

theorem ideas_prompt_always_requires_games:
  "(\<exists>before. \<forall>all_keywords. \<exists>after.
      ideas_prompt paragraph product_info search_links all_keywords idea_count =
        before @ str ''You must include:'' @ NL @ str ''- At least two game-related ideas'' @ NL @ after) \<and>
   py_in (str ''You must include:'' @ NL @ str ''- At least two game-related ideas'' @ NL)
     (req_content (ideas_request paragraph product_info search_links all_keywords idea_count)) \<and>
   snd (generate_event_ideas w paragraph product_info search_links all_keywords idea_count tr) =
     tr @ [ChatCompletion (ideas_request paragraph product_info search_links all_keywords idea_count)]"
proof -
  have a: "\<exists>before. \<forall>all_keywords. \<exists>after.
      ideas_prompt paragraph product_info search_links all_keywords idea_count =
        before @ str ''You must include:'' @ NL @ str ''- At least two game-related ideas'' @ NL @ after"
    using ideas_prompt_must_include [of "paragraph" product_info search_links _ idea_count] by blast
  have "\<exists>pre post. ideas_prompt paragraph product_info search_links all_keywords idea_count =
      pre @ (str ''You must include:'' @ NL @ str ''- At least two game-related ideas'' @ NL) @ post"
    using ideas_prompt_must_include [of "paragraph" product_info search_links all_keywords idea_count]
    by (metis append_assoc)
  then have b: "py_in (str ''You must include:'' @ NL @ str ''- At least two game-related ideas'' @ NL)
     (req_content (ideas_request paragraph product_info search_links all_keywords idea_count))"
    by (simp add: py_in_iff ideas_request_def)
  show ?thesis using a b by (simp add: generate_event_ideas_def)
qed

section \<open>Keyword extraction\<close>

lemma split_on_not_nil: "split_on is_sep s \<noteq> []"
  by (induction s) (auto split: list.splits)










section \<open>Parsing the inspiration links\<close>

lemma collect_links_eq:
  "collect_links lines results =
     results @ map link_of_line (filter (py_in (str ''http'')) lines)"
  by (induction lines arbitrary: results) auto






lemma parse_links_eq:
  "parse_links content =
     take 10 (map link_of_line (filter (py_in (str ''http'')) (split_on (\<lambda>c. c = 10) content)))"
  by (simp add: parse_links_def collect_links_eq)





section \<open>Sampling the products\<close>

lemma sample_from_length:
  "k \<le> length pool \<Longrightarrow> length (sample_from draw j pool k) = k"
proof (induction k arbitrary: pool j)
  case 0
  then show ?case by simp
next
  case (Suc k)
  then obtain x xs where pool: "pool = x # xs" by (cases pool) auto
  define i where "i = draw j mod length (x # xs)"
  have "i < length (x # xs)" by (simp add: i_def)
  then have "k \<le> length (take i (x # xs) @ drop (Suc i) (x # xs))"
    using Suc.prems pool by simp
  then have "length (sample_from draw (Suc j) (take i (x # xs) @ drop (Suc i) (x # xs)) k) = k"
    by (rule Suc.IH)
  then show ?case by (simp add: pool Let_def i_def)
qed

lemma sample_from_distinct:
  "k \<le> length pool \<Longrightarrow> distinct pool \<Longrightarrow>
   distinct (sample_from draw j pool k) \<and> set (sample_from draw j pool k) \<subseteq> set pool"
proof (induction k arbitrary: pool j)
  case 0
  then show ?case by simp
next
  case (Suc k)
  then obtain x xs where pool: "pool = x # xs" by (cases pool) auto
  define i where "i = draw j mod length pool"
  define rest where "rest = take i pool @ drop (Suc i) pool"
  have i: "i < length pool" using pool by (simp add: i_def)
  then have decomp: "pool = take i pool @ pool ! i # drop (Suc i) pool"
    by (rule id_take_nth_drop)
  have "distinct (take i pool @ pool ! i # drop (Suc i) pool)"
    using Suc.prems(2) decomp by metis
  then have d: "distinct rest" and notin: "pool ! i \<notin> set rest"
    by (auto simp: rest_def)
  have sub: "set rest \<subseteq> set pool"
    by (auto simp: rest_def dest: in_set_takeD in_set_dropD)
  have "k \<le> length rest" using Suc.prems(1) i by (simp add: rest_def)
  then have IH: "distinct (sample_from draw (Suc j) rest k) \<and>
      set (sample_from draw (Suc j) rest k) \<subseteq> set rest"
    using d by (rule Suc.IH)
  have eq: "sample_from draw j pool (Suc k) = pool ! i # sample_from draw (Suc j) rest k"
    by (simp add: pool Let_def i_def rest_def)
  have "pool ! i \<in> set pool" using i by simp
  then show ?case using IH notin sub unfolding eq by auto
qed

text \<open>
  C7. The sampling stage is \<open>random.sample(list(PRODUCT_CATALOG.keys()), k=4)\<close>. For a
  catalog of at least four entries (a dictionary: its keys are distinct) it returns,
  whatever the random draws, exactly four product names, different from one another,
  each a key of the catalog. For a catalog of fewer than four entries it fails; the
  failure the specification calls \<open>InsufficientCatalogError\<close> is the \<open>ValueError\<close> that
  \<open>random.sample\<close> raises, and \<open>main_workflow\<close>, given a paragraph that is not blank,
  returns the message "Error selecting products" with the text of the exception, no
  later stage having run.
\<close>

theorem sampling_four_distinct_products_or_error:
  "(4 \<le> length catalog \<and> distinct (map fst catalog) \<longrightarrow>
      (\<exists>gadget_names.
          random_sample draw (map fst catalog) 4 = Inr gadget_names \<and>
          length gadget_names = 4 \<and> distinct gadget_names \<and>
          set gadget_names \<subseteq> fst ` set catalog)) \<and>
   (length catalog < 4 \<longrightarrow>
      random_sample draw (map fst catalog) 4 =
        Inl (ValueError (str ''Sample larger than population or is negative''))) \<and>
   (length catalog < 4 \<and> py_strip paragraph \<noteq> [] \<longrightarrow>
      main_workflow w catalog paragraph tr =
        ([10060] @ str '' Error selecting products: '' @
           str ''Sample larger than population or is negative'',
         tr @ [RandomSample (map fst catalog) 4]))"
proof -
  have "4 \<le> length catalog \<and> distinct (map fst catalog) \<longrightarrow>
      (\<exists>gadget_names.
          random_sample draw (map fst catalog) 4 = Inr gadget_names \<and>
          length gadget_names = 4 \<and> distinct gadget_names \<and>
          set gadget_names \<subseteq> fst ` set catalog)"
    using sample_from_length [of 4 "map fst catalog" draw 0]
      sample_from_distinct [of 4 "map fst catalog" draw 0]
    by (simp add: random_sample_def)
  moreover have "length catalog < 4 \<longrightarrow>
      random_sample draw (map fst catalog) 4 =
        Inl (ValueError (str ''Sample larger than population or is negative''))"
    by (simp add: random_sample_def)
  moreover have "length catalog < 4 \<and> py_strip paragraph \<noteq> [] \<longrightarrow>
      main_workflow w catalog paragraph tr =
        ([10060] @ str '' Error selecting products: '' @
           str ''Sample larger than population or is negative'',
         tr @ [RandomSample (map fst catalog) 4])"
    by (simp add: main_workflow_def random_sample_def)
  ultimately show ?thesis by blast
qed

theorem sampling_witness:
  "(\<exists>gadget_names.
      random_sample (\<lambda>j. 1)
        (map fst [(str ''a'', str ''x''), (str ''b'', str ''y''), (str ''c'', str ''z''),
                  (str ''d'', str ''u''), (str ''e'', str ''v'')]) 4 = Inr gadget_names \<and>
      length gadget_names = 4 \<and> distinct gadget_names \<and>
      set gadget_names \<subseteq>
        fst ` set [(str ''a'', str ''x''), (str ''b'', str ''y''), (str ''c'', str ''z''),
                  (str ''d'', str ''u''), (str ''e'', str ''v'')]) \<and>
   main_workflow
     \<lparr>chat_reply = (\<lambda>n r. Inr None), search_reply = (\<lambda>n q. Inr []), random_draws = (\<lambda>n j. 0),
      unicode_lower = (\<lambda>s. s), unicode_title = (\<lambda>s. s)\<rparr>
     [(str ''a'', str ''x''), (str ''b'', str ''y''), (str ''c'', str ''z'')] (str ''party'') [] =
     ([10060] @ str '' Error selecting products: '' @
        str ''Sample larger than population or is negative'',
      [RandomSample [str ''a'', str ''b'', str ''c''] 4])"
proof -
  let ?w = "\<lparr>chat_reply = (\<lambda>n r. Inr None), search_reply = (\<lambda>n q. Inr []), random_draws = (\<lambda>n j. 0),
      unicode_lower = (\<lambda>s. s), unicode_title = (\<lambda>s. s)\<rparr>"
  let ?c5 = "[(str ''a'', str ''x''), (str ''b'', str ''y''), (str ''c'', str ''z''),
                  (str ''d'', str ''u''), (str ''e'', str ''v'')]"
  let ?c3 = "[(str ''a'', str ''x''), (str ''b'', str ''y''), (str ''c'', str ''z'')]"
  have h1: "4 \<le> length ?c5 \<and> distinct (map fst ?c5)" by (simp add: str_def)
  have h2: "length ?c3 < 4 \<and> py_strip (str ''party'') \<noteq> []"
    by (simp add: py_strip_nil_iff str_def py_isspace_def)
  note t1 = sampling_four_distinct_products_or_error [where catalog = ?c5 and draw = "\<lambda>j. 1"]
  note t2 = sampling_four_distinct_products_or_error
    [where catalog = ?c3 and w = ?w and tr = "[]"]
  from t1 h1 have a: "\<exists>gadget_names.
      random_sample (\<lambda>j. 1) (map fst ?c5) 4 = Inr gadget_names \<and>
      length gadget_names = 4 \<and> distinct gadget_names \<and> set gadget_names \<subseteq> fst ` set ?c5"
    by blast
  from t2 h2 have b: "main_workflow ?w ?c3 (str ''party'') [] =
     ([10060] @ str '' Error selecting products: '' @
        str ''Sample larger than population or is negative'',
      tr0 @ [RandomSample (map fst ?c3) 4])" if "tr0 = []" for tr0
    using that by blast
  from a b [OF refl] show ?thesis by simp
qed

section \<open>Summarizing the keywords\<close>








section \<open>A failed inspiration search\<close>

lemma parse_links_no_http:
  "\<forall>line\<in>set (split_on (\<lambda>c. c = 10) content). \<not> py_in (str ''http'') line \<Longrightarrow>
   parse_links content = []"
  by (simp add: parse_links_eq filter_empty_conv)

lemma gather_keywords_search_failed:
  assumes "chat_reply w (length tr) (extract_keywords_request paragraph) = Inr (Some raw)"
    and "search_reply w (Suc (length tr)) (search_input (parse_keywords w raw)) = Inl e"
  shows "gather_keywords w paragraph tr =
        (Inr ([], merge_keywords (parse_keywords w raw) []),
         tr @ [ChatCompletion (extract_keywords_request paragraph),
               WebSearch (search_input (parse_keywords w raw))])"
  using assms
  by (simp add: gather_keywords_def extract_keywords_def keywords_of_reply_def
      search_similar_events_and_products_openai_def)

text \<open>
  C5. \<open>search_similar_events_and_products_openai\<close> returns a list of links for every
  list of keywords and every behaviour of the service; it has no exceptional outcome.
  When the call raises, whatever the exception, the list is empty; it is empty as
  well when the response is the empty text or holds no line with \<open>http\<close>. In
  \<open>main_workflow\<close> a failed search does not end the request: the keyword stage
  finishes with no links and with the base keywords alone, sorted and without
  duplicates, and the workflow goes on to idea generation and summarization with them.
\<close>

theorem search_failure_gives_no_links:
  "search_similar_events_and_products_openai w kws tr =
     (case search_reply w (length tr) (search_input kws) of
        Inl e \<Rightarrow> []
      | Inr content \<Rightarrow> parse_links content,
      tr @ [WebSearch (search_input kws)]) \<and>
   (search_reply w (length tr) (search_input kws) = Inl e \<longrightarrow>
      search_similar_events_and_products_openai w kws tr =
        ([], tr @ [WebSearch (search_input kws)])) \<and>
   parse_links [] = [] \<and>
   ((\<forall>line\<in>set (split_on (\<lambda>c. c = 10) content). \<not> py_in (str ''http'') line) \<longrightarrow>
      parse_links content = []) \<and>
   (chat_reply w (length tr) (extract_keywords_request paragraph) = Inr (Some raw) \<and>
    search_reply w (Suc (length tr)) (search_input (parse_keywords w raw)) = Inl e \<longrightarrow>
      gather_keywords w paragraph tr =
        (Inr ([], merge_keywords (parse_keywords w raw) []),
         tr @ [ChatCompletion (extract_keywords_request paragraph),
               WebSearch (search_input (parse_keywords w raw))])) \<and>
   (py_strip paragraph \<noteq> [] \<and>
    random_sample (random_draws w (length tr)) (map fst catalog) 4 = Inr gadget_names \<and>
    chat_reply w (Suc (length tr)) (extract_keywords_request paragraph) = Inr (Some raw) \<and>
    search_reply w (Suc (Suc (length tr))) (search_input (parse_keywords w raw)) = Inl e \<longrightarrow>
      main_workflow w catalog paragraph tr =
        ideas_and_summary w paragraph (get_product_descriptions catalog gadget_names) []
          (merge_keywords (parse_keywords w raw) [])
          (tr @ [RandomSample (map fst catalog) 4,
                 ChatCompletion (extract_keywords_request paragraph),
                 WebSearch (search_input (parse_keywords w raw))]))"
proof -
  have a: "search_similar_events_and_products_openai w kws tr =
     (case search_reply w (length tr) (search_input kws) of
        Inl e \<Rightarrow> []
      | Inr content \<Rightarrow> parse_links content,
      tr @ [WebSearch (search_input kws)])"
    by (simp add: search_similar_events_and_products_openai_def)
  have b: "search_reply w (length tr) (search_input kws) = Inl e \<longrightarrow>
      search_similar_events_and_products_openai w kws tr =
        ([], tr @ [WebSearch (search_input kws)])"
    by (simp add: search_similar_events_and_products_openai_def)
  have c: "parse_links [] = []"
    by (simp add: parse_links_def str_def)
  have d: "(\<forall>line\<in>set (split_on (\<lambda>c. c = 10) content). \<not> py_in (str ''http'') line) \<longrightarrow>
      parse_links content = []"
    using parse_links_no_http [of content] by blast
  have e: "chat_reply w (length tr) (extract_keywords_request paragraph) = Inr (Some raw) \<and>
    search_reply w (Suc (length tr)) (search_input (parse_keywords w raw)) = Inl e \<longrightarrow>
      gather_keywords w paragraph tr =
        (Inr ([], merge_keywords (parse_keywords w raw) []),
         tr @ [ChatCompletion (extract_keywords_request paragraph),
               WebSearch (search_input (parse_keywords w raw))])"
    using gather_keywords_search_failed [of w tr "paragraph" raw e] by blast
  have f: "py_strip paragraph \<noteq> [] \<and>
    random_sample (random_draws w (length tr)) (map fst catalog) 4 = Inr gadget_names \<and>
    chat_reply w (Suc (length tr)) (extract_keywords_request paragraph) = Inr (Some raw) \<and>
    search_reply w (Suc (Suc (length tr))) (search_input (parse_keywords w raw)) = Inl e \<longrightarrow>
      main_workflow w catalog paragraph tr =
        ideas_and_summary w paragraph (get_product_descriptions catalog gadget_names) []
          (merge_keywords (parse_keywords w raw) [])
          (tr @ [RandomSample (map fst catalog) 4,
                 ChatCompletion (extract_keywords_request paragraph),
                 WebSearch (search_input (parse_keywords w raw))])"
    using gather_keywords_search_failed
      [of w "tr @ [RandomSample (map fst catalog) 4]" "paragraph" raw e]
    by (simp add: main_workflow_def)
  from a b c d e f show ?thesis by blast
qed

theorem search_failure_witness:
  "search_similar_events_and_products_openai
     \<lparr>chat_reply = (\<lambda>n r. Inr (Some (str ''games, photo booth''))),
      search_reply = (\<lambda>n q. Inl (APIError (str ''timeout''))),
      random_draws = (\<lambda>n j. 0),
      unicode_lower = (\<lambda>s. s), unicode_title = (\<lambda>s. s)\<rparr> [str ''games''] [] =
     ([], [WebSearch (search_input [str ''games''])]) \<and>
   parse_links (str ''no links today'') = [] \<and>
   main_workflow
     \<lparr>chat_reply = (\<lambda>n r. Inr (Some (str ''games, photo booth''))),
      search_reply = (\<lambda>n q. Inl (APIError (str ''timeout''))),
      random_draws = (\<lambda>n j. 0),
      unicode_lower = (\<lambda>s. s), unicode_title = (\<lambda>s. s)\<rparr>
     [(str ''a'', str ''x''), (str ''b'', str ''y''), (str ''c'', str ''z''), (str ''d'', str ''u'')]
     (str ''party'') [] =
   ideas_and_summary
     \<lparr>chat_reply = (\<lambda>n r. Inr (Some (str ''games, photo booth''))),
      search_reply = (\<lambda>n q. Inl (APIError (str ''timeout''))),
      random_draws = (\<lambda>n j. 0),
      unicode_lower = (\<lambda>s. s), unicode_title = (\<lambda>s. s)\<rparr>
     (str ''party'')
     (get_product_descriptions
        [(str ''a'', str ''x''), (str ''b'', str ''y''), (str ''c'', str ''z''), (str ''d'', str ''u'')]
        [str ''a'', str ''b'', str ''c'', str ''d''])
     [] (merge_keywords (parse_keywords
        \<lparr>chat_reply = (\<lambda>n r. Inr (Some (str ''games, photo booth''))),
      search_reply = (\<lambda>n q. Inl (APIError (str ''timeout''))),
      random_draws = (\<lambda>n j. 0),
      unicode_lower = (\<lambda>s. s), unicode_title = (\<lambda>s. s)\<rparr>
        (str ''games, photo booth'')) [])
     [RandomSample [str ''a'', str ''b'', str ''c'', str ''d''] 4,
      ChatCompletion (extract_keywords_request (str ''party'')),
      WebSearch (search_input (parse_keywords
        \<lparr>chat_reply = (\<lambda>n r. Inr (Some (str ''games, photo booth''))),
      search_reply = (\<lambda>n q. Inl (APIError (str ''timeout''))),
      random_draws = (\<lambda>n j. 0),
      unicode_lower = (\<lambda>s. s), unicode_title = (\<lambda>s. s)\<rparr>
        (str ''games, photo booth'')))]"
proof -
  let ?w = "\<lparr>chat_reply = (\<lambda>n r. Inr (Some (str ''games, photo booth''))),
      search_reply = (\<lambda>n q. Inl (APIError (str ''timeout''))),
      random_draws = (\<lambda>n j. 0),
      unicode_lower = (\<lambda>s. s), unicode_title = (\<lambda>s. s)\<rparr>"
  let ?cat = "[(str ''a'', str ''x''), (str ''b'', str ''y''), (str ''c'', str ''z''), (str ''d'', str ''u'')]"
  have h1: "search_reply ?w (length ([]::event list)) (search_input [str ''games'']) =
      Inl (APIError (str ''timeout''))"
    by simp
  have "sample_from (\<lambda>j. 0) 0 [p, q, r, s] (Suc (Suc (Suc (Suc 0)))) = [p, q, r, s]"
    for p q r s :: pystr
    by simp
  moreover have "(4::nat) = Suc (Suc (Suc (Suc 0)))" by simp
  ultimately have first_four: "sample_from (\<lambda>j. 0) 0 [p, q, r, s] 4 = [p, q, r, s]"
    for p q r s :: pystr
    by metis
  have h2: "\<forall>line\<in>set (split_on (\<lambda>c. c = 10) (str ''no links today'')). \<not> py_in (str ''http'') line"
    by (simp add: str_def)
  have h3: "py_strip (str ''party'') \<noteq> [] \<and>
    random_sample (random_draws ?w (length ([]::event list))) (map fst ?cat) 4 =
      Inr [str ''a'', str ''b'', str ''c'', str ''d''] \<and>
    chat_reply ?w (Suc (length ([]::event list))) (extract_keywords_request (str ''party'')) =
      Inr (Some (str ''games, photo booth'')) \<and>
    search_reply ?w (Suc (Suc (length ([]::event list))))
      (search_input (parse_keywords ?w (str ''games, photo booth''))) = Inl (APIError (str ''timeout''))"
    using first_four [of "str ''a''" "str ''b''" "str ''c''" "str ''d''"]
    by (simp add: py_strip_nil_iff str_def py_isspace_def random_sample_def)
  note t1 = search_failure_gives_no_links
    [where w = ?w and tr = "[]" and kws = "[str ''games'']" and e = "APIError (str ''timeout'')"
       and content = "str ''no links today''" and catalog = ?cat
       and gadget_names = "[str ''a'', str ''b'', str ''c'', str ''d'']"
       and raw = "str ''games, photo booth''"]
  from t1 h1 h2 h3 show ?thesis by simp
qed

end
